theory Spec2Isabelle
  imports
    Complex_Main
    "HOL-Library.Sublist"
    "HOL-Library.Char_ord"
    "HOL-Library.List_Lexorder"
begin

section \<open>The budget analyzer of arqam (class BudgetAnalyzer)\<close>

text \<open>
  The class \<^verbatim>\<open>BudgetAnalyzer\<close> holds an array of spreadsheet rows and answers a
  free-text question with a narrative string, an optional data payload and an optional
  chart tag.  The embedding below follows the TypeScript method by method.

  Scope of the model:
  \<^item> A JavaScript number is a rational, \<open>+Infinity\<close>, \<open>-Infinity\<close> or \<open>NaN\<close>.  Finite
    arithmetic is exact: the rounding of IEEE doubles, overflow to infinity and the sign
    of zero are not modelled.
  \<^item> A JavaScript string is a list of 8-bit characters.  The non-ASCII characters of the
    narrative templates are written as their UTF-8 bytes; lower-casing changes the
    letters \<open>A\<close> to \<open>Z\<close> only.
  \<^item> An object used as a dictionary is an association list in insertion order, with
    the enumeration order of own properties (array-index keys first) written out.
    Keys that collide with members of \<^verbatim>\<open>Object.prototype\<close> are not treated specially.
\<close>

subsection \<open>Strings\<close>

definition toLowerCase :: "string \<Rightarrow> string" where
  "toLowerCase s =
     map (\<lambda>c. if CHR ''A'' \<le> c \<and> c \<le> CHR ''Z'' then char_of (of_char c + (32::nat)) else c) s"

text \<open>\<^verbatim>\<open>s.includes(k)\<close>: \<open>k\<close> occurs in \<open>s\<close> as a contiguous substring.\<close>

definition js_includes :: "string \<Rightarrow> string \<Rightarrow> bool" where
  "js_includes s k = sublist k s"

subsection \<open>The query classifier\<close>

datatype AnalysisKind =
    Trends | MissedBudgets | Discrepancies | Totals | Averages | Performance | GLEntries
  | GeneralInsight

text \<open>The chain of \<^verbatim>\<open>if\<close> statements of \<^verbatim>\<open>analyzeQuery\<close>, as the method it selects.\<close>

definition classify :: "string \<Rightarrow> AnalysisKind" where
  "classify query =
     (let lowerQuery = toLowerCase query in
      if js_includes lowerQuery ''trend'' \<or> js_includes lowerQuery ''yearly'' then Trends
      else if js_includes lowerQuery ''missed'' \<or> js_includes lowerQuery ''miss''
              \<or> js_includes lowerQuery ''over budget'' then MissedBudgets
      else if js_includes lowerQuery ''discrepan'' \<or> js_includes lowerQuery ''variance''
              \<or> js_includes lowerQuery ''difference'' then Discrepancies
      else if js_includes lowerQuery ''total'' \<or> js_includes lowerQuery ''sum'' then Totals
      else if js_includes lowerQuery ''average'' \<or> js_includes lowerQuery ''mean'' then Averages
      else if js_includes lowerQuery ''best'' \<or> js_includes lowerQuery ''worst''
              \<or> js_includes lowerQuery ''performance'' then Performance
      else if js_includes lowerQuery ''gl'' \<or> js_includes lowerQuery ''general ledger'' then GLEntries
      else GeneralInsight)"

text \<open>
  The classifier as the specification words it: a priority table of keyword sets, of
  which the first one with a member occurring in the lower-cased question wins.
\<close>

definition keyword_table :: "(AnalysisKind \<times> string list) list" where
  "keyword_table =
     [(Trends, [''trend'', ''yearly'']),
      (MissedBudgets, [''missed'', ''miss'', ''over budget'']),
      (Discrepancies, [''discrepan'', ''variance'', ''difference'']),
      (Totals, [''total'', ''sum'']),
      (Averages, [''average'', ''mean'']),
      (Performance, [''best'', ''worst'', ''performance'']),
      (GLEntries, [''gl'', ''general ledger''])]"

definition classify_spec :: "string \<Rightarrow> AnalysisKind" where
  "classify_spec query =
     (case find (\<lambda>(kind, kws). list_ex (js_includes (toLowerCase query)) kws) keyword_table of
        Some (kind, kws) \<Rightarrow> kind
      | None \<Rightarrow> GeneralInsight)"

subsection \<open>Numbers\<close>

datatype jsnum = Fin rat | PInf | NInf | NaN

definition is_neg :: "jsnum \<Rightarrow> bool" where
  "is_neg x = (case x of Fin a \<Rightarrow> a < 0 | NInf \<Rightarrow> True | _ \<Rightarrow> False)"

definition js_neg :: "jsnum \<Rightarrow> jsnum" where
  "js_neg x = (case x of Fin a \<Rightarrow> Fin (- a) | PInf \<Rightarrow> NInf | NInf \<Rightarrow> PInf | NaN \<Rightarrow> NaN)"

definition js_add :: "jsnum \<Rightarrow> jsnum \<Rightarrow> jsnum" where
  "js_add x y =
     (case (x, y) of
        (Fin a, Fin b) \<Rightarrow> Fin (a + b)
      | (NaN, _) \<Rightarrow> NaN
      | (_, NaN) \<Rightarrow> NaN
      | (Fin a, _) \<Rightarrow> y
      | (_, Fin b) \<Rightarrow> x
      | _ \<Rightarrow> if x = y then x else NaN)"

definition js_sub :: "jsnum \<Rightarrow> jsnum \<Rightarrow> jsnum" where
  "js_sub x y = js_add x (js_neg y)"

definition js_mul :: "jsnum \<Rightarrow> jsnum \<Rightarrow> jsnum" where
  "js_mul x y =
     (case (x, y) of
        (Fin a, Fin b) \<Rightarrow> Fin (a * b)
      | _ \<Rightarrow> if x = NaN \<or> y = NaN \<or> x = Fin 0 \<or> y = Fin 0 then NaN
             else if is_neg x = is_neg y then PInf else NInf)"

text \<open>Division by zero gives an infinity or \<open>NaN\<close>; the zero is taken as positive.\<close>

definition js_div :: "jsnum \<Rightarrow> jsnum \<Rightarrow> jsnum" where
  "js_div x y =
     (case (x, y) of
        (Fin a, Fin b) \<Rightarrow>
          if b = 0 then (if a = 0 then NaN else if 0 < a then PInf else NInf)
          else Fin (a / b)
      | (Fin a, _) \<Rightarrow> if y = NaN then NaN else Fin 0
      | (_, Fin b) \<Rightarrow> if x = NaN then NaN else if is_neg x = (b < 0) then PInf else NInf
      | _ \<Rightarrow> NaN)"

definition js_abs :: "jsnum \<Rightarrow> jsnum" where
  "js_abs x = (case x of Fin a \<Rightarrow> Fin \<bar>a\<bar> | NInf \<Rightarrow> PInf | _ \<Rightarrow> x)"

text \<open>\<^verbatim>\<open>x < y\<close> and \<^verbatim>\<open>x > y\<close>: false as soon as one side is \<open>NaN\<close>.\<close>

definition js_lt :: "jsnum \<Rightarrow> jsnum \<Rightarrow> bool" where
  "js_lt x y =
     (case (x, y) of
        (Fin a, Fin b) \<Rightarrow> a < b
      | (NaN, _) \<Rightarrow> False
      | (_, NaN) \<Rightarrow> False
      | (NInf, _) \<Rightarrow> y \<noteq> NInf
      | (_, PInf) \<Rightarrow> x \<noteq> PInf
      | _ \<Rightarrow> False)"

definition js_gt :: "jsnum \<Rightarrow> jsnum \<Rightarrow> bool" where
  "js_gt x y = js_lt y x"

definition num :: "nat \<Rightarrow> jsnum" where
  "num n = Fin (of_nat n)"

subsection \<open>Values and records\<close>

datatype jsval = JUndefined | JBool bool | JNum jsnum | JStr string

definition truthy :: "jsval \<Rightarrow> bool" where
  "truthy v =
     (case v of
        JUndefined \<Rightarrow> False
      | JBool b \<Rightarrow> b
      | JNum n \<Rightarrow> n \<noteq> NaN \<and> n \<noteq> Fin 0
      | JStr s \<Rightarrow> s \<noteq> [])"

text \<open>\<^verbatim>\<open>a || b\<close>\<close>

definition js_or :: "jsval \<Rightarrow> jsval \<Rightarrow> jsval" where
  "js_or a b = (if truthy a then a else b)"

text \<open>A spreadsheet row: field names with their cells, in column order.\<close>

type_synonym item = "(string \<times> jsval) list"

text \<open>\<^verbatim>\<open>item[field]\<close>: \<^verbatim>\<open>undefined\<close> for a field the row does not have.\<close>

definition get_prop :: "item \<Rightarrow> string \<Rightarrow> jsval" where
  "get_prop it field = (case map_of it field of None \<Rightarrow> JUndefined | Some v \<Rightarrow> v)"

text \<open>\<^verbatim>\<open>{...item, field: v}\<close>: an existing field keeps its place, a new one comes last.\<close>

fun set_prop :: "string \<Rightarrow> jsval \<Rightarrow> item \<Rightarrow> item" where
  "set_prop field v [] = [(field, v)]"
| "set_prop field v ((k, w) # it) =
     (if k = field then (k, v) # it else (k, w) # set_prop field v it)"

subsection \<open>Parsing numbers\<close>

definition is_digit :: "char \<Rightarrow> bool" where
  "is_digit c = (CHR ''0'' \<le> c \<and> c \<le> CHR ''9'')"

definition is_space :: "char \<Rightarrow> bool" where
  "is_space c = (c \<in> set [CHR 0x09, CHR 0x0A, CHR 0x0B, CHR 0x0C, CHR 0x0D, CHR '' ''])"

definition digits_value :: "string \<Rightarrow> int" where
  "digits_value ds = foldl (\<lambda>n c. 10 * n + (of_char c - 48)) 0 ds"

text \<open>An optional sign: whether it is a minus, and the rest of the string.\<close>

definition strip_sign :: "string \<Rightarrow> bool \<times> string" where
  "strip_sign s =
     (case s of
        [] \<Rightarrow> (False, [])
      | c # r \<Rightarrow> if c = CHR ''-'' then (True, r) else if c = CHR ''+'' then (False, r)
                else (False, s))"

text \<open>The exponent part \<^verbatim>\<open>e[+-]digits\<close>, when the rest of the string starts with one.\<close>

definition exponent_part :: "string \<Rightarrow> int" where
  "exponent_part s =
     (case s of
        [] \<Rightarrow> 0
      | c # r \<Rightarrow>
          if c = CHR ''e'' \<or> c = CHR ''E'' then
            (let (neg, d) = strip_sign r; ds = takeWhile is_digit d in
             if ds = [] then 0
             else if neg then - digits_value ds else digits_value ds)
          else 0)"

text \<open>
  \<^verbatim>\<open>parseFloat\<close> on a string: leading white space (the ASCII one) is skipped, then
  the longest prefix that is a decimal literal is read; there is no such prefix exactly
  when the result is \<open>NaN\<close>.
\<close>

definition parseFloat_string :: "string \<Rightarrow> jsnum" where
  "parseFloat_string s =
     (let (neg, u) = strip_sign (dropWhile is_space s) in
      if prefix ''Infinity'' u then (if neg then NInf else PInf)
      else
        let ip = takeWhile is_digit u;
            r1 = dropWhile is_digit u;
            dot = (r1 \<noteq> [] \<and> hd r1 = CHR ''.'');
            fp = (if dot then takeWhile is_digit (tl r1) else []);
            r2 = (if dot then dropWhile is_digit (tl r1) else r1)
        in
          if ip = [] \<and> fp = [] then NaN
          else
            let m = of_int (digits_value (ip @ fp)) / 10 ^ length fp;
                e = exponent_part r2;
                a = (if 0 \<le> e then m * 10 ^ nat e else m / 10 ^ nat (- e))
            in Fin (if neg then - a else a))"

text \<open>
  \<^verbatim>\<open>parseFloat(v)\<close> converts its argument to a string first.  A number prints and
  reads back as itself; \<^verbatim>\<open>true\<close>, \<^verbatim>\<open>false\<close> and \<^verbatim>\<open>undefined\<close> print as words.
\<close>

definition parseFloat :: "jsval \<Rightarrow> jsnum" where
  "parseFloat v =
     (case v of
        JNum n \<Rightarrow> n
      | JStr s \<Rightarrow> parseFloat_string s
      | JBool b \<Rightarrow> NaN
      | JUndefined \<Rightarrow> NaN)"

text \<open>
  The two accessors every method repeats:
  \<^verbatim>\<open>parseFloat(item.Budget || item.budget || 0)\<close> and the same for \<^verbatim>\<open>Actual\<close>.
\<close>

definition budget_of :: "item \<Rightarrow> jsnum" where
  "budget_of it = parseFloat (js_or (js_or (get_prop it ''Budget'') (get_prop it ''budget'')) (JNum (Fin 0)))"

definition actual_of :: "item \<Rightarrow> jsnum" where
  "actual_of it = parseFloat (js_or (js_or (get_prop it ''Actual'') (get_prop it ''actual'')) (JNum (Fin 0)))"

subsection \<open>The host: clock, random numbers and number formatting\<close>

text \<open>
  What the analyzer takes from its JavaScript host and the model takes as a parameter:
  \<^verbatim>\<open>new Date().getFullYear()\<close>, \<^verbatim>\<open>Math.random()\<close> (a number from 0 up to, not
  including, 1), the locale's \<^verbatim>\<open>toLocaleString()\<close>, and the printing of a number that
  is not an integer below \<open>10\<^sup>2\<^sup>1\<close> (its shortest digits depend on the double).
\<close>

record host =
  currentYear :: int
  random :: rat
  toLocaleString :: "jsnum \<Rightarrow> string"
  printNumber :: "rat \<Rightarrow> string"

text \<open>The decimal digits of an integer that is not negative.\<close>

function show_int :: "int \<Rightarrow> string" where
  "show_int n =
     (if n < 10 then [char_of (48 + n)]
      else show_int (n div 10) @ [char_of (48 + n mod 10)])"
  by pat_completeness auto
termination
  by (relation "measure nat") auto

declare show_int.simps [simp del]

text \<open>\<^verbatim>\<open>String(x)\<close> for a number.\<close>

definition number_toString :: "host \<Rightarrow> jsnum \<Rightarrow> string" where
  "number_toString h x =
     (case x of
        NaN \<Rightarrow> ''NaN''
      | PInf \<Rightarrow> ''Infinity''
      | NInf \<Rightarrow> ''-Infinity''
      | Fin a \<Rightarrow>
          if a = of_int \<lfloor>a\<rfloor> \<and> \<bar>a\<bar> < 10 ^ 21
          then (if a < 0 then ''-'' else []) @ show_int \<bar>\<lfloor>a\<rfloor>\<bar>
          else printNumber h a)"

text \<open>\<^verbatim>\<open>String(v)\<close>, also the property key that \<^verbatim>\<open>acc[v]\<close> reads and writes.\<close>

definition toString :: "host \<Rightarrow> jsval \<Rightarrow> string" where
  "toString h v =
     (case v of
        JUndefined \<Rightarrow> ''undefined''
      | JBool b \<Rightarrow> if b then ''true'' else ''false''
      | JNum n \<Rightarrow> number_toString h n
      | JStr s \<Rightarrow> s)"

text \<open>
  \<^verbatim>\<open>x.toFixed(1)\<close>: the nearest multiple of one tenth, the larger one on a tie, after
  the sign has been taken off; one digit after the point.
\<close>

definition toFixed1 :: "host \<Rightarrow> jsnum \<Rightarrow> string" where
  "toFixed1 h x =
     (case x of
        Fin a \<Rightarrow>
          (let s = (if a < 0 then ''-'' else []); b = \<bar>a\<bar> in
           if 10 ^ 21 \<le> b then s @ number_toString h (Fin b)
           else
             let m = show_int \<lfloor>b * 10 + 1 / 2\<rfloor>;
                 m = (if length m \<le> 1 then ''0'' @ m else m)
             in s @ butlast m @ ''.'' @ [last m])
      | _ \<Rightarrow> number_toString h x)"

text \<open>The sign the templates put before a variance: \<^verbatim>\<open>x > 0 ? '+' : ''\<close>.\<close>

definition plus_sign :: "jsnum \<Rightarrow> string" where
  "plus_sign x = (if js_gt x (Fin 0) then ''+'' else [])"

subsection \<open>Objects as dictionaries\<close>

text \<open>
  \<^verbatim>\<open>acc[k]\<close> of an accumulator object that starts as \<^verbatim>\<open>{}\<close>: the entry of a new key
  is created from \<open>init\<close>, then \<open>f\<close> updates the entry.
\<close>

fun dict_update :: "string \<Rightarrow> 'v \<Rightarrow> ('v \<Rightarrow> 'v) \<Rightarrow> (string \<times> 'v) list \<Rightarrow> (string \<times> 'v) list" where
  "dict_update k init f [] = [(k, f init)]"
| "dict_update k init f ((k', v) # acc) =
     (if k' = k then (k', f v) # acc else (k', v) # dict_update k init f acc)"

text \<open>
  The order in which \<^verbatim>\<open>Object.keys\<close>, \<^verbatim>\<open>Object.entries\<close> and \<^verbatim>\<open>Object.values\<close>
  enumerate: keys that are array indices (canonical decimal numerals below
  \<open>2\<^sup>3\<^sup>2 - 1\<close>) in ascending numeric order, then the other keys in insertion order.
\<close>

definition is_array_index :: "string \<Rightarrow> bool" where
  "is_array_index k =
     (k \<noteq> [] \<and> list_all is_digit k \<and> (k = ''0'' \<or> hd k \<noteq> CHR ''0'')
      \<and> digits_value k < 2 ^ 32 - 1)"

definition entries :: "(string \<times> 'v) list \<Rightarrow> (string \<times> 'v) list" where
  "entries obj =
     sort_key (\<lambda>(k, v). digits_value k) (filter (\<lambda>(k, v). is_array_index k) obj)
     @ filter (\<lambda>(k, v). \<not> is_array_index k) obj"

definition keys :: "(string \<times> 'v) list \<Rightarrow> string list" where
  "keys obj = map fst (entries obj)"

definition values_of :: "(string \<times> 'v) list \<Rightarrow> 'v list" where
  "values_of obj = map snd (entries obj)"

text \<open>\<^verbatim>\<open>xs.join(', ')\<close>\<close>

fun join :: "string list \<Rightarrow> string" where
  "join [] = []"
| "join [x] = x"
| "join (x # y # xs) = x @ '', '' @ join (y # xs)"

text \<open>
  \<^verbatim>\<open>xs.sort(cmp)\<close> for a comparator that returns a number: a stable sort, in which
  \<open>x\<close> stays before \<open>y\<close> unless \<open>cmp x y\<close> is positive.  (For a comparator that is not
  a consistent ordering, as with \<open>NaN\<close> keys, ECMAScript leaves the order to the engine;
  the model is the insertion sort.)
\<close>

fun insort_cmp :: "('a \<Rightarrow> 'a \<Rightarrow> jsnum) \<Rightarrow> 'a \<Rightarrow> 'a list \<Rightarrow> 'a list" where
  "insort_cmp cmp x [] = [x]"
| "insort_cmp cmp x (y # ys) =
     (if js_gt (cmp x y) (Fin 0) then y # insort_cmp cmp x ys else x # y # ys)"

definition sort_cmp :: "('a \<Rightarrow> 'a \<Rightarrow> jsnum) \<Rightarrow> 'a list \<Rightarrow> 'a list" where
  "sort_cmp cmp xs = foldr (insort_cmp cmp) xs []"


subsection \<open>Results and narrative text\<close>

datatype chart = Line | Bar | Table

record year_sums =
  budget :: jsnum
  actual :: jsnum

text \<open>A row of the trend series: \<^verbatim>\<open>{ year, variance, budget, actual }\<close>.\<close>

record trend_row = year_sums +
  year :: string
  variance :: jsnum

record totals =
  totalBudget :: jsnum
  totalActual :: jsnum

text \<open>An entry of the ledger summary: \<^verbatim>\<open>{ count, totalBudget, totalActual }\<close>.\<close>

record gl_sums = totals +
  count :: nat

text \<open>An entry of the ledger ranking: \<^verbatim>\<open>{ gl, ...data, variance }\<close>.\<close>

record gl_entry = gl_sums +
  gl :: string
  gl_variance :: jsnum

text \<open>The \<^verbatim>\<open>data\<close> field, whose shape depends on the analysis; \<open>Null\<close> is \<^verbatim>\<open>null\<close>.\<close>

datatype payload =
    TrendRows "trend_row list"
  | Items "item list"
  | TotalsData totals jsnum
  | AveragesData jsnum jsnum jsnum
  | GLSummary "gl_sums list"
  | Null

text \<open>\<^verbatim>\<open>BudgetAnalysisResult\<close>; an optional field that is not set is \<open>None\<close>.\<close>

record BudgetAnalysisResult =
  insight :: string
  data :: "payload option"
  chartType :: "chart option"

definition nl :: string where
  "nl = [CHR 0x0A]"

definition apostrophe :: string where
  "apostrophe = [CHR 0x27]"

definition chart_increasing :: string where
  "chart_increasing = [CHR 0xF0, CHR 0x9F, CHR 0x93, CHR 0x88]"

definition chart_decreasing :: string where
  "chart_decreasing = [CHR 0xF0, CHR 0x9F, CHR 0x93, CHR 0x89]"

definition check_mark :: string where
  "check_mark = [CHR 0xE2, CHR 0x9C, CHR 0x85]"

definition warning_sign :: string where
  "warning_sign = [CHR 0xE2, CHR 0x9A, CHR 0xA0, CHR 0xEF, CHR 0xB8, CHR 0x8F]"

definition cross_mark :: string where
  "cross_mark = [CHR 0xE2, CHR 0x9D, CHR 0x8C]"

definition bullet :: string where
  "bullet = [CHR 0xE2, CHR 0x80, CHR 0xA2]"

definition direct_hit :: string where
  "direct_hit = [CHR 0xF0, CHR 0x9F, CHR 0x8E, CHR 0xAF]"

definition bar_chart :: string where
  "bar_chart = [CHR 0xF0, CHR 0x9F, CHR 0x93, CHR 0x8A]"

definition magnifier :: string where
  "magnifier = [CHR 0xF0, CHR 0x9F, CHR 0x94, CHR 0x8D]"

definition money_bag :: string where
  "money_bag = [CHR 0xF0, CHR 0x9F, CHR 0x92, CHR 0xB0]"

definition money_wings :: string where
  "money_wings = [CHR 0xF0, CHR 0x9F, CHR 0x92, CHR 0xB8]"

definition light_bulb :: string where
  "light_bulb = [CHR 0xF0, CHR 0x9F, CHR 0x92, CHR 0xA1]"

definition glowing_star :: string where
  "glowing_star = [CHR 0xF0, CHR 0x9F, CHR 0x8C, CHR 0x9F]"

definition trophy :: string where
  "trophy = [CHR 0xF0, CHR 0x9F, CHR 0x8F, CHR 0x86]"

definition clipboard :: string where
  "clipboard = [CHR 0xF0, CHR 0x9F, CHR 0x93, CHR 0x8B]"

definition input_numbers :: string where
  "input_numbers = [CHR 0xF0, CHR 0x9F, CHR 0x94, CHR 0xA2]"

definition siren :: string where
  "siren = [CHR 0xF0, CHR 0x9F, CHR 0x9A, CHR 0xA8]"

definition calendar :: string where
  "calendar = [CHR 0xF0, CHR 0x9F, CHR 0x97, CHR 0x93, CHR 0xEF, CHR 0xB8, CHR 0x8F]"

text \<open>\<^verbatim>\<open>xs.forEach((x, index) => ...)\<close> appending one line per element.\<close>

definition for_each_indexed :: "(nat \<Rightarrow> 'a \<Rightarrow> string) \<Rightarrow> 'a list \<Rightarrow> string" where
  "for_each_indexed line xs = concat (map (\<lambda>(index, x). line index x) (enumerate 0 xs))"

text \<open>\<^verbatim>\<open>${n}\<close> for a count or an index.\<close>

definition show_nat :: "nat \<Rightarrow> string" where
  "show_nat n = show_int (int n)"

text \<open>
  \<^verbatim>\<open>item.Category || item.category || item.Description || item.description || 'Unknown'\<close>,
  as it prints in a template.
\<close>

definition category_of :: "host \<Rightarrow> item \<Rightarrow> string" where
  "category_of h it =
     toString h
       (js_or (js_or (js_or (js_or (get_prop it ''Category'') (get_prop it ''category''))
          (get_prop it ''Description'')) (get_prop it ''description'')) (JStr ''Unknown''))"

text \<open>
  A field that the analyzer itself has written into a copy of a row (\<^verbatim>\<open>variance\<close>,
  \<^verbatim>\<open>discrepancy\<close>) holds a number.
\<close>

definition number_prop :: "item \<Rightarrow> string \<Rightarrow> jsnum" where
  "number_prop it field = (case get_prop it field of JNum n \<Rightarrow> n | _ \<Rightarrow> NaN)"

text \<open>The three-way status mark of a variance.\<close>

definition status_mark :: "jsnum \<Rightarrow> string" where
  "status_mark v =
     (if js_lt (js_abs v) (Fin 5) then check_mark
      else if js_lt (js_abs v) (Fin 15) then warning_sign else cross_mark)"

subsection \<open>Grouping by year\<close>

text \<open>
  \<^verbatim>\<open>item.Year || item.year || new Date().getFullYear()\<close>, as the property key it
  becomes in \<^verbatim>\<open>acc[year]\<close>.
\<close>

definition year_of :: "host \<Rightarrow> item \<Rightarrow> string" where
  "year_of h it =
     toString h
       (js_or (js_or (get_prop it ''Year'') (get_prop it ''year''))
          (JNum (Fin (of_int (currentYear h)))))"

definition groupByYear :: "host \<Rightarrow> item list \<Rightarrow> (string \<times> year_sums) list" where
  "groupByYear h items =
     foldl (\<lambda>acc it.
        dict_update (year_of h it) \<lparr>budget = Fin 0, actual = Fin 0\<rparr>
          (\<lambda>s. \<lparr>budget = js_add (budget s) (budget_of it),
                 actual = js_add (actual s) (actual_of it)\<rparr>) acc)
       [] items"

definition groupMissesByYear :: "host \<Rightarrow> item list \<Rightarrow> (string \<times> nat) list" where
  "groupMissesByYear h missedBudgets =
     foldl (\<lambda>acc it. dict_update (year_of h it) 0 (\<lambda>c. c + 1) acc) [] missedBudgets"

subsection \<open>Trend analysis\<close>

text \<open>The percentage all guarded sites compute: \<^verbatim>\<open>b > 0 ? ((a - b) / b) * 100 : 0\<close>.\<close>

definition variance_pct :: "jsnum \<Rightarrow> jsnum \<Rightarrow> jsnum" where
  "variance_pct b a =
     (if js_gt b (Fin 0) then js_mul (js_div (js_sub a b) b) (Fin 100) else Fin 0)"

text \<open>\<^verbatim>\<open>Object.keys(yearlyData).sort()\<close>: the year keys in ascending order as strings.\<close>

definition sorted_years :: "(string \<times> year_sums) list \<Rightarrow> string list" where
  "sorted_years yearlyData = sort (keys yearlyData)"

text \<open>
  \<^verbatim>\<open>years.map(year => ...)\<close>.  Every element of \<open>years\<close> is a key of
  \<open>yearlyData\<close>, so the lookup finds an entry.
\<close>

definition trendAnalysis :: "(string \<times> year_sums) list \<Rightarrow> trend_row list" where
  "trendAnalysis yearlyData =
     map (\<lambda>y.
        let d = (case map_of yearlyData y of Some d \<Rightarrow> d
                 | None \<Rightarrow> \<lparr>budget = NaN, actual = NaN\<rparr>)
        in \<lparr>budget = budget d, actual = actual d, year = y,
            variance = variance_pct (budget d) (actual d)\<rparr>)
       (sorted_years yearlyData)"

text \<open>
  \<^verbatim>\<open>trendAnalysis.filter((_, i) => i > 0 && |variance[i]| < |variance[i-1]|).length\<close>
\<close>

definition improvingYears :: "trend_row list \<Rightarrow> nat" where
  "improvingYears rows =
     length (filter (\<lambda>i. 0 < i \<and>
         js_lt (js_abs (variance (rows ! i))) (js_abs (variance (rows ! (i - 1)))))
       [0..<length rows])"

definition isImproving :: "trend_row list \<Rightarrow> bool" where
  "isImproving rows =
     (let totalYears = length rows - 1 in
      (of_nat totalYears :: rat) / 2 < of_nat (improvingYears rows))"

definition trend_header :: "string list \<Rightarrow> string" where
  "trend_header years =
     ''**Budget Trend Analysis ('' @ hd years @ '' - '' @ last years @ '')**'' @ nl @ nl"

definition positive_trend :: string where
  "positive_trend =
     chart_increasing @ '' **Positive Trend**: Your budget accuracy has generally improved over time.'' @ nl @ nl"

definition declining_trend :: string where
  "declining_trend =
     chart_decreasing @ '' **Declining Trend**: Budget accuracy has declined in recent years.'' @ nl @ nl"

definition trend_line :: "host \<Rightarrow> trend_row \<Rightarrow> string" where
  "trend_line h r =
     bullet @ '' '' @ year r @ '': '' @ plus_sign (variance r) @ toFixed1 h (variance r)
     @ ''% variance '' @ status_mark (variance r) @ nl"

definition insufficient_years :: string where
  "insufficient_years =
     ''I need at least 2 years of data to analyze trends. Your current data covers only one year or less.''"

definition analyzeTrends :: "host \<Rightarrow> item list \<Rightarrow> BudgetAnalysisResult" where
  "analyzeTrends h items =
     (let yearlyData = groupByYear h items;
          years = sorted_years yearlyData
      in
        if length years < 2 then
          \<lparr>insight = insufficient_years, data = None, chartType = None\<rparr>
        else
          let rows = trendAnalysis yearlyData in
          \<lparr>insight =
               trend_header years
               @ (if isImproving rows then positive_trend else declining_trend)
               @ ''**Year-by-Year Performance:**'' @ nl
               @ concat (map (trend_line h) rows),
             data = Some (TrendRows rows),
             chartType = Some Line\<rparr>)"

subsection \<open>Missed budgets\<close>

text \<open>\<^verbatim>\<open>actual > budget * 1.05\<close>\<close>

definition missed :: "item \<Rightarrow> bool" where
  "missed it = js_gt (actual_of it) (js_mul (budget_of it) (Fin (105 / 100)))"

definition missedBudgets :: "item list \<Rightarrow> item list" where
  "missedBudgets items = filter missed items"

definition missedPercentage :: "item list \<Rightarrow> jsnum" where
  "missedPercentage items =
     js_mul (js_div (num (length (missedBudgets items))) (num (length items))) (Fin 100)"

definition missed_header :: string where
  "missed_header = ''**Budget Performance Analysis**'' @ nl @ nl"

definition no_overruns :: string where
  "no_overruns =
     direct_hit @ '' **Excellent!** You haven't significantly exceeded your budget in any recorded entries.'' @ nl @ nl"

definition overruns_line :: "host \<Rightarrow> item list \<Rightarrow> string" where
  "overruns_line h items =
     bar_chart @ '' **Budget Overruns**: '' @ show_nat (length (missedBudgets items)) @ '' out of ''
     @ show_nat (length items) @ '' entries ('' @ toFixed1 h (missedPercentage items)
     @ ''%) exceeded budget by more than 5%.'' @ nl @ nl"

definition risk_note :: "jsnum \<Rightarrow> string" where
  "risk_note p =
     (if js_gt p (Fin 30) then
        warning_sign @ '' **High Risk**: More than 30% of your budget entries are over budget. Consider reviewing your budgeting process.'' @ nl @ nl
      else if js_gt p (Fin 15) then
        magnifier @ '' **Moderate Concern**: Some budget categories consistently go over. Review these areas for better planning.'' @ nl @ nl
      else [])"

definition analyzeMissedBudgets :: "host \<Rightarrow> item list \<Rightarrow> BudgetAnalysisResult" where
  "analyzeMissedBudgets h items =
     (let missedCount = length (missedBudgets items) in
      \<lparr>insight =
           missed_header
           @ (if missedCount = 0 then no_overruns
              else
                overruns_line h items
                @ risk_note (missedPercentage items)
                @ ''**Missed Budgets by Year:**'' @ nl
                @ concat (map (\<lambda>(y, c). bullet @ '' '' @ y @ '': '' @ show_nat c @ '' budget overruns'' @ nl)
                     (entries (groupMissesByYear h (missedBudgets items))))),
         data = Some (Items (missedBudgets items)),
         chartType = Some Bar\<rparr>)"

subsection \<open>Discrepancies\<close>

text \<open>\<^verbatim>\<open>{ ...item, variance, discrepancy: actual - budget }\<close>\<close>

definition with_discrepancy :: "item \<Rightarrow> item" where
  "with_discrepancy it =
     set_prop ''discrepancy'' (JNum (js_sub (actual_of it) (budget_of it)))
       (set_prop ''variance'' (JNum (variance_pct (budget_of it) (actual_of it))) it)"

definition discrepancies :: "item list \<Rightarrow> item list" where
  "discrepancies items =
     filter (\<lambda>it. js_gt (js_abs (number_prop it ''variance'')) (Fin 5))
       (map with_discrepancy items)"

definition totalDiscrepancy :: "item list \<Rightarrow> jsnum" where
  "totalDiscrepancy ds =
     foldl (\<lambda>sum it. js_add sum (js_abs (number_prop it ''discrepancy''))) (Fin 0) ds"

definition avgVariance :: "item list \<Rightarrow> jsnum" where
  "avgVariance ds =
     (if 0 < length ds
      then js_div (foldl (\<lambda>sum it. js_add sum (js_abs (number_prop it ''variance''))) (Fin 0) ds)
             (num (length ds))
      else Fin 0)"

text \<open>The comparator \<^verbatim>\<open>(a, b) => Math.abs(b.variance) - Math.abs(a.variance)\<close>.\<close>

definition by_abs_variance :: "item \<Rightarrow> item \<Rightarrow> jsnum" where
  "by_abs_variance a b =
     js_sub (js_abs (number_prop b ''variance'')) (js_abs (number_prop a ''variance''))"

text \<open>\<^verbatim>\<open>discrepancies.sort(...).slice(0, 5)\<close>\<close>

definition largestDiscrepancies :: "item list \<Rightarrow> item list" where
  "largestDiscrepancies ds = take 5 (sort_cmp by_abs_variance ds)"

definition discrepancy_header :: string where
  "discrepancy_header = ''**Budget Variance Analysis**'' @ nl @ nl"

definition excellent_accuracy :: string where
  "excellent_accuracy =
     check_mark @ '' **Excellent Accuracy**: All budget entries are within 5% of planned amounts.'' @ nl @ nl"

definition variance_summary :: "host \<Rightarrow> item list \<Rightarrow> string" where
  "variance_summary h ds =
     chart_increasing @ '' **Variance Summary**: '' @ show_nat (length ds)
     @ '' entries with significant variances (>5%)'' @ nl
     @ money_bag @ '' **Total Discrepancy**: $'' @ toLocaleString h (totalDiscrepancy ds) @ nl
     @ bar_chart @ '' **Average Variance**: '' @ toFixed1 h (avgVariance ds) @ ''%'' @ nl @ nl"

definition ranked_line :: "host \<Rightarrow> nat \<Rightarrow> item \<Rightarrow> string" where
  "ranked_line h index it =
     show_nat (index + 1) @ ''. '' @ category_of h it @ '': ''
     @ plus_sign (number_prop it ''variance'') @ toFixed1 h (number_prop it ''variance'')
     @ ''%'' @ nl"

text \<open>
  \<^verbatim>\<open>sort\<close> works in place, so the array returned as \<^verbatim>\<open>data\<close> is the sorted one
  whenever the ranking has been computed.
\<close>

definition analyzeDiscrepancies :: "host \<Rightarrow> item list \<Rightarrow> BudgetAnalysisResult" where
  "analyzeDiscrepancies h items =
     (let ds = discrepancies items in
      if length ds = 0 then
        \<lparr>insight = discrepancy_header @ excellent_accuracy,
           data = Some (Items ds), chartType = Some Table\<rparr>
      else
        \<lparr>insight =
             discrepancy_header @ variance_summary h ds
             @ ''**Top 5 Largest Variances:**'' @ nl
             @ for_each_indexed (ranked_line h) (largestDiscrepancies ds),
           data = Some (Items (sort_cmp by_abs_variance ds)),
           chartType = Some Table\<rparr>)"

subsection \<open>Totals\<close>

definition sum_totals :: "item list \<Rightarrow> totals" where
  "sum_totals items =
     foldl (\<lambda>acc it.
        \<lparr>totalBudget = js_add (totalBudget acc) (budget_of it),
           totalActual = js_add (totalActual acc) (actual_of it)\<rparr>)
       \<lparr>totalBudget = Fin 0, totalActual = Fin 0\<rparr> items"

definition totalVariance :: "item list \<Rightarrow> jsnum" where
  "totalVariance items =
     variance_pct (totalBudget (sum_totals items)) (totalActual (sum_totals items))"

definition excellent_control :: string where
  "excellent_control =
     direct_hit @ '' **Excellent Control**: Your overall budget variance is within acceptable limits.'' @ nl"

definition over_budget :: string where
  "over_budget =
     warning_sign @ '' **Over Budget**: You've exceeded your total budget. Consider reviewing spending controls.'' @ nl"

definition under_budget :: string where
  "under_budget =
     light_bulb @ '' **Under Budget**: You've spent less than planned. This could indicate conservative budgeting or missed opportunities.'' @ nl"

definition totals_label :: "jsnum \<Rightarrow> string" where
  "totals_label v =
     (if js_lt (js_abs v) (Fin 5) then excellent_control
      else if js_gt v (Fin 0) then over_budget
      else under_budget)"

definition analyzeTotals :: "host \<Rightarrow> item list \<Rightarrow> BudgetAnalysisResult" where
  "analyzeTotals h items =
     (let ts = sum_totals items; v = totalVariance items in
      \<lparr>insight =
           ''**Total Budget Analysis**'' @ nl @ nl
           @ money_bag @ '' **Total Budgeted**: $'' @ toLocaleString h (totalBudget ts) @ nl
           @ money_wings @ '' **Total Actual**: $'' @ toLocaleString h (totalActual ts) @ nl
           @ bar_chart @ '' **Overall Variance**: '' @ plus_sign v @ toFixed1 h v @ ''%'' @ nl @ nl
           @ totals_label v,
         data = Some (TotalsData ts v),
         chartType = None\<rparr>)"

subsection \<open>Averages\<close>

definition avgBudget :: "item list \<Rightarrow> jsnum" where
  "avgBudget items =
     js_div (foldl (\<lambda>sum it. js_add sum (budget_of it)) (Fin 0) items) (num (length items))"

definition avgActual :: "item list \<Rightarrow> jsnum" where
  "avgActual items =
     js_div (foldl (\<lambda>sum it. js_add sum (actual_of it)) (Fin 0) items) (num (length items))"

text \<open>\<^verbatim>\<open>((avgActual - avgBudget) / avgBudget) * 100\<close>, with no test of the divisor.\<close>

definition averageVariance :: "item list \<Rightarrow> jsnum" where
  "averageVariance items =
     js_mul (js_div (js_sub (avgActual items) (avgBudget items)) (avgBudget items)) (Fin 100)"

definition good_consistency :: string where
  "good_consistency =
     check_mark @ '' **Good Consistency**: Your average spending aligns well with budget planning.'' @ nl"

definition review_needed :: string where
  "review_needed =
     warning_sign @ '' **Review Needed**: Significant variance in average spending suggests budgeting improvements needed.'' @ nl"

definition analyzeAverages :: "host \<Rightarrow> item list \<Rightarrow> BudgetAnalysisResult" where
  "analyzeAverages h items =
     (let v = averageVariance items in
      \<lparr>insight =
           ''**Average Budget Analysis**'' @ nl @ nl
           @ bar_chart @ '' **Average Budget**: $'' @ toLocaleString h (avgBudget items) @ nl
           @ chart_increasing @ '' **Average Actual**: $'' @ toLocaleString h (avgActual items) @ nl
           @ direct_hit @ '' **Average Variance**: '' @ plus_sign v @ toFixed1 h v @ ''%'' @ nl @ nl
           @ (if js_lt (js_abs v) (Fin 10) then good_consistency else review_needed),
         data = Some (AveragesData (avgBudget items) (avgActual items) v),
         chartType = None\<rparr>)"

subsection \<open>Performance\<close>

text \<open>\<^verbatim>\<open>budget > 0 ? Math.abs((actual - budget) / budget) * 100 : 0\<close>\<close>

definition abs_variance_pct :: "jsnum \<Rightarrow> jsnum \<Rightarrow> jsnum" where
  "abs_variance_pct b a =
     (if js_gt b (Fin 0) then js_mul (js_abs (js_div (js_sub a b) b)) (Fin 100) else Fin 0)"

definition score_of :: "jsnum \<Rightarrow> string" where
  "score_of v =
     (if js_lt v (Fin 5) then ''Excellent''
      else if js_lt v (Fin 15) then ''Good''
      else if js_lt v (Fin 25) then ''Fair''
      else ''Poor'')"

text \<open>\<^verbatim>\<open>{ ...item, variance, score }\<close>\<close>

definition with_score :: "item \<Rightarrow> item" where
  "with_score it =
     (let v = abs_variance_pct (budget_of it) (actual_of it) in
      set_prop ''score'' (JStr (score_of v)) (set_prop ''variance'' (JNum v) it))"

definition performance :: "item list \<Rightarrow> item list" where
  "performance items = map with_score items"

definition bestPerformers :: "item list \<Rightarrow> item list" where
  "bestPerformers items =
     take 3 (filter (\<lambda>it. get_prop it ''score'' = JStr ''Excellent'') (performance items))"

definition worstPerformers :: "item list \<Rightarrow> item list" where
  "worstPerformers items =
     take 3 (filter (\<lambda>it. get_prop it ''score'' = JStr ''Poor'') (performance items))"

text \<open>\<^verbatim>\<open>acc[item.score] = (acc[item.score] || 0) + 1\<close>\<close>

definition scores :: "host \<Rightarrow> item list \<Rightarrow> (string \<times> nat) list" where
  "scores h items =
     foldl (\<lambda>acc it. dict_update (toString h (get_prop it ''score'')) 0 (\<lambda>c. c + 1) acc)
       [] (performance items)"

definition score_emoji :: "string \<Rightarrow> string" where
  "score_emoji score =
     (if score = ''Excellent'' then glowing_star
      else if score = ''Good'' then check_mark
      else if score = ''Fair'' then warning_sign
      else cross_mark)"

definition performer_line :: "host \<Rightarrow> nat \<Rightarrow> item \<Rightarrow> string" where
  "performer_line h index it =
     show_nat (index + 1) @ ''. '' @ category_of h it @ '' (''
     @ toFixed1 h (number_prop it ''variance'') @ ''% variance)'' @ nl"

definition analyzePerformance :: "host \<Rightarrow> item list \<Rightarrow> BudgetAnalysisResult" where
  "analyzePerformance h items =
     \<lparr>insight =
          ''**Performance Analysis**'' @ nl @ nl
          @ bar_chart @ '' **Performance Distribution:**'' @ nl
          @ concat (map (\<lambda>(score, c).
                bullet @ '' '' @ score_emoji score @ '' '' @ score @ '': '' @ show_nat c @ '' entries'' @ nl)
              (entries (scores h items)))
          @ nl @ trophy @ '' **Best Performers:**'' @ nl
          @ for_each_indexed (performer_line h) (bestPerformers items)
          @ (if 0 < length (worstPerformers items) then
               nl @ magnifier @ '' **Areas for Improvement:**'' @ nl
               @ for_each_indexed (performer_line h) (worstPerformers items)
             else []),
        data = Some (Items (performance items)),
        chartType = Some Bar\<rparr>"

subsection \<open>Ledger entries\<close>

text \<open>\<^verbatim>\<open>this.data[0] || {}\<close>\<close>

definition first_item :: "item list \<Rightarrow> item" where
  "first_item items = (case items of [] \<Rightarrow> [] | it # rest \<Rightarrow> it)"

definition is_gl_field :: "string \<Rightarrow> bool" where
  "is_gl_field key =
     (js_includes (toLowerCase key) ''gl'' \<or> js_includes (toLowerCase key) ''account''
      \<or> js_includes (toLowerCase key) ''code'')"

definition glFields :: "item list \<Rightarrow> string list" where
  "glFields items = filter is_gl_field (keys (first_item items))"

text \<open>The body of \<^verbatim>\<open>glFields.forEach(field => ...)\<close> for one row and one field.\<close>

definition gl_step :: "host \<Rightarrow> item \<Rightarrow> (string \<times> gl_sums) list \<Rightarrow> string \<Rightarrow> (string \<times> gl_sums) list" where
  "gl_step h it acc field =
     (let glValue = get_prop it field in
      if truthy glValue then
        dict_update (toString h glValue) \<lparr>totalBudget = Fin 0, totalActual = Fin 0, count = 0\<rparr>
          (\<lambda>e. \<lparr>totalBudget = js_add (totalBudget e) (budget_of it),
                 totalActual = js_add (totalActual e) (actual_of it),
                 count = count e + 1\<rparr>) acc
      else acc)"

definition glSummary :: "host \<Rightarrow> item list \<Rightarrow> (string \<times> gl_sums) list" where
  "glSummary h items =
     foldl (\<lambda>acc it. foldl (gl_step h it) acc (glFields items)) [] items"

definition by_abs_gl_variance :: "gl_entry \<Rightarrow> gl_entry \<Rightarrow> jsnum" where
  "by_abs_gl_variance a b = js_sub (js_abs (gl_variance b)) (js_abs (gl_variance a))"

definition glEntries :: "host \<Rightarrow> item list \<Rightarrow> gl_entry list" where
  "glEntries h items =
     sort_cmp by_abs_gl_variance
       (map (\<lambda>(k, e).
           \<lparr>totalBudget = totalBudget e, totalActual = totalActual e, count = count e,
              gl = k, gl_variance = variance_pct (totalBudget e) (totalActual e)\<rparr>)
          (entries (glSummary h items)))"

definition gl_header :: string where
  "gl_header = ''**General Ledger Analysis**'' @ nl @ nl"

definition no_gl_fields :: string where
  "no_gl_fields =
     cross_mark @ '' **No GL Fields Found**: Your data doesn't appear to contain General Ledger account codes or similar fields.'' @ nl @ nl
     @ ''Common GL field names to look for: '' @ apostrophe @ ''GL_Account'' @ apostrophe @ '', '' @ apostrophe @ ''Account_Code'' @ apostrophe @ '', '' @ apostrophe @ ''GL_Code'' @ apostrophe @ '', etc.'' @ nl"

definition gl_line :: "host \<Rightarrow> nat \<Rightarrow> gl_entry \<Rightarrow> string" where
  "gl_line h index entry =
     show_nat (index + 1) @ ''. '' @ gl entry @ '': '' @ plus_sign (gl_variance entry)
     @ toFixed1 h (gl_variance entry) @ ''% '' @ status_mark (gl_variance entry) @ nl"

definition problematicGLs :: "gl_entry list \<Rightarrow> gl_entry list" where
  "problematicGLs es = filter (\<lambda>entry. js_gt (js_abs (gl_variance entry)) (Fin 15)) es"

text \<open>The narrative that the branch for detected ledger fields builds.\<close>

definition gl_report :: "host \<Rightarrow> item list \<Rightarrow> string" where
  "gl_report h items =
     (let es = glEntries h items in
      gl_header
      @ clipboard @ '' **GL Fields Identified**: '' @ join (glFields items) @ nl @ nl
      @ input_numbers @ '' **Total GL Accounts**: '' @ show_nat (length es) @ nl @ nl
      @ (if 0 < length es then
           ''**Top GL Accounts by Variance:**'' @ nl
           @ for_each_indexed (gl_line h) (take 5 es)
           @ (if 0 < length (problematicGLs es) then
                nl @ siren @ '' **GL Accounts Needing Review**: ''
                @ show_nat (length (problematicGLs es))
                @ '' accounts with >15% variance'' @ nl
              else [])
         else []))"

text \<open>
  A run-time error of the analyzer.  The only one is raised by the \<^verbatim>\<open>return\<close>
  statement of \<^verbatim>\<open>analyzeGLEntries\<close>:
  \<^verbatim>\<open>data: glFields.length > 0 ? Object.values(glSummary) : null\<close>
  reads \<^verbatim>\<open>glSummary\<close>, which is declared with \<^verbatim>\<open>const\<close> inside the
  \<^verbatim>\<open>else\<close> block above and is not in scope after it.  The name is looked up only
  when ledger fields were detected; the narrative built until then is lost with the
  exception.
\<close>

datatype error = ReferenceError string

definition analyzeGLEntries :: "host \<Rightarrow> item list \<Rightarrow> error + BudgetAnalysisResult" where
  "analyzeGLEntries h items =
     (if length (glFields items) = 0 then
        Inr \<lparr>insight = gl_header @ no_gl_fields, data = Some Null, chartType = Some Table\<rparr>
      else
        let insight = gl_report h items in
        Inl (ReferenceError ''glSummary''))"

subsection \<open>The fallback\<close>

definition help_text :: string where
  "help_text =
     ''I can help you analyze your budget data! Try asking questions like:'' @ nl @ nl
     @ bullet @ '' '' @ apostrophe @ ''What was the trend for our yearly budget submissions?'' @ apostrophe @ nl
     @ bullet @ '' '' @ apostrophe @ ''How many years did we miss the budget plan?'' @ apostrophe @ nl
     @ bullet @ '' '' @ apostrophe @ ''Show me budget variances by category'' @ apostrophe @ nl
     @ bullet @ '' '' @ apostrophe @ ''What are the largest discrepancies in our data?'' @ apostrophe @ nl
     @ bullet @ '' '' @ apostrophe @ ''Analyze our GL account performance'' @ apostrophe"

definition overview_text :: "item list \<Rightarrow> string" where
  "overview_text items =
     ''**Quick Data Overview:**'' @ nl @ nl
     @ bar_chart @ '' **Total Records**: '' @ show_nat (length items) @ nl
     @ calendar @ '' **Data Fields**: '' @ join (keys (first_item items)) @ nl @ nl
     @ light_bulb @ '' **Tip**: Ask specific questions about trends, variances, or performance to get detailed insights!''"

text \<open>
  \<^verbatim>\<open>sampleInsights[Math.floor(Math.random() * sampleInsights.length)]\<close>: the draw is
  below 1, so the index is 0 or 1.
\<close>

definition provideGeneralInsight :: "host \<Rightarrow> item list \<Rightarrow> BudgetAnalysisResult" where
  "provideGeneralInsight h items =
     \<lparr>insight = (if \<lfloor>random h * 2\<rfloor> = 0 then help_text else overview_text items),
        data = None, chartType = None\<rparr>"

subsection \<open>The entry point\<close>

definition analyzeQuery :: "host \<Rightarrow> item list \<Rightarrow> string \<Rightarrow> error + BudgetAnalysisResult" where
  "analyzeQuery h items query =
     (let lowerQuery = toLowerCase query in
      if js_includes lowerQuery ''trend'' \<or> js_includes lowerQuery ''yearly''
      then Inr (analyzeTrends h items)
      else if js_includes lowerQuery ''missed'' \<or> js_includes lowerQuery ''miss''
              \<or> js_includes lowerQuery ''over budget''
      then Inr (analyzeMissedBudgets h items)
      else if js_includes lowerQuery ''discrepan'' \<or> js_includes lowerQuery ''variance''
              \<or> js_includes lowerQuery ''difference''
      then Inr (analyzeDiscrepancies h items)
      else if js_includes lowerQuery ''total'' \<or> js_includes lowerQuery ''sum''
      then Inr (analyzeTotals h items)
      else if js_includes lowerQuery ''average'' \<or> js_includes lowerQuery ''mean''
      then Inr (analyzeAverages h items)
      else if js_includes lowerQuery ''best'' \<or> js_includes lowerQuery ''worst''
              \<or> js_includes lowerQuery ''performance''
      then Inr (analyzePerformance h items)
      else if js_includes lowerQuery ''gl'' \<or> js_includes lowerQuery ''general ledger''
      then analyzeGLEntries h items
      else Inr (provideGeneralInsight h items))"

subsection \<open>Auxiliary notions for the statements\<close>

text \<open>No keyword of any category occurs in the lower-cased question.\<close>

definition no_keyword :: "string \<Rightarrow> bool" where
  "no_keyword q =
     list_all (\<lambda>(kind, kws). list_all (\<lambda>k. \<not> js_includes (toLowerCase q) k) kws)
       keyword_table"

text \<open>
  A host for the examples: the year is 2026, the locale prints an integer as its
  digits, and a number that is not an integer prints as the empty string.
\<close>

definition example_host :: host where
  "example_host =
     \<lparr>currentYear = 2026, random = 0,
        toLocaleString = number_toString \<lparr>currentYear = 2026, random = 0,
          toLocaleString = (\<lambda>x. []), printNumber = (\<lambda>r. [])\<rparr>,
        printNumber = (\<lambda>r. [])\<rparr>"

text \<open>The two records of the totals scenario.\<close>

definition scenario_records :: "item list" where
  "scenario_records =
     [[(''Year'', JNum (Fin 2021)), (''Budget'', JNum (Fin 100)), (''Actual'', JNum (Fin 120))],
      [(''Year'', JNum (Fin 2022)), (''Budget'', JNum (Fin 100)), (''Actual'', JNum (Fin 90))]]"

text \<open>One record with a budget of zero, and one whose budget cell is not a number.\<close>

definition zero_budget_records :: "item list" where
  "zero_budget_records = [[(''Budget'', JNum (Fin 0)), (''Actual'', JNum (Fin 50))]]"









text \<open>Four years of records, two of them in the same year, and two records of one year.\<close>

definition four_year_records :: "item list" where
  "four_year_records =
     [[(''Year'', JNum (Fin 2023)), (''Budget'', JNum (Fin 100)), (''Actual'', JNum (Fin 104))],
      [(''Year'', JNum (Fin 2021)), (''Budget'', JNum (Fin 100)), (''Actual'', JNum (Fin 130))],
      [(''Year'', JStr ''2022''), (''Budget'', JNum (Fin 50)), (''Actual'', JNum (Fin 45))],
      [(''Year'', JNum (Fin 2022)), (''Budget'', JNum (Fin 50)), (''Actual'', JNum (Fin 45))],
      [(''Year'', JNum (Fin 2024)), (''Budget'', JNum (Fin 100)), (''Actual'', JNum (Fin 80))]]"


text \<open>Three records with a \<^verbatim>\<open>GL_Account\<close> field holding \<^verbatim>\<open>"4000"\<close> or \<^verbatim>\<open>"4100"\<close>.\<close>

definition ledger_records :: "item list" where
  "ledger_records =
     [[(''GL_Account'', JStr ''4000''), (''Budget'', JNum (Fin 100)), (''Actual'', JNum (Fin 110))],
      [(''GL_Account'', JStr ''4100''), (''Budget'', JNum (Fin 200)), (''Actual'', JNum (Fin 190))],
      [(''GL_Account'', JStr ''4000''), (''Budget'', JNum (Fin 50)), (''Actual'', JNum (Fin 50))]]"

text \<open>One record without a year, over its budget.\<close>

definition undated_records :: "item list" where
  "undated_records = [[(''Budget'', JNum (Fin 100)), (''Actual'', JNum (Fin 200))]]"

section \<open>Verified properties\<close>

subsection \<open>The classifier\<close>

lemma includes_toLowerCase:
  assumes "js_includes s k"
  shows "js_includes (toLowerCase s) (toLowerCase k)"
proof -
  from assms obtain ps ss where "s = ps @ k @ ss"
    by (auto simp: js_includes_def sublist_def)
  then have "toLowerCase s = toLowerCase ps @ toLowerCase k @ toLowerCase ss"
    by (simp add: toLowerCase_def)
  then show ?thesis
    unfolding js_includes_def sublist_def by blast
qed

lemma toLowerCase_trend: "toLowerCase ''trend'' = ''trend''"
  by (simp add: toLowerCase_def)

lemma classify_refines: "classify q = classify_spec q"
  by (simp add: classify_def classify_spec_def keyword_table_def Let_def)

lemma analyzeQuery_dispatch:
  "analyzeQuery h items q =
     (case classify q of
        Trends \<Rightarrow> Inr (analyzeTrends h items)
      | MissedBudgets \<Rightarrow> Inr (analyzeMissedBudgets h items)
      | Discrepancies \<Rightarrow> Inr (analyzeDiscrepancies h items)
      | Totals \<Rightarrow> Inr (analyzeTotals h items)
      | Averages \<Rightarrow> Inr (analyzeAverages h items)
      | Performance \<Rightarrow> Inr (analyzePerformance h items)
      | GLEntries \<Rightarrow> analyzeGLEntries h items
      | GeneralInsight \<Rightarrow> Inr (provideGeneralInsight h items))"
  by (simp add: analyzeQuery_def classify_def Let_def)

text \<open>
  Claim C4.  The method that \<^verbatim>\<open>analyzeQuery\<close> runs is the one of the first category,
  in the order trend, missed budget, discrepancy, totals, averages, performance, ledger,
  one of whose keywords occurs in the lower-cased question.  A question with both
  \<open>trend\<close> and \<open>total\<close> in it (lower-cased or as typed) runs the trend analysis.  A
  question with no keyword runs the general insight, which returns a result and no
  error.
\<close>

theorem classifier_priority:
  "classify q = classify_spec q
   \<and> analyzeQuery h items q =
       (case classify q of
          Trends \<Rightarrow> Inr (analyzeTrends h items)
        | MissedBudgets \<Rightarrow> Inr (analyzeMissedBudgets h items)
        | Discrepancies \<Rightarrow> Inr (analyzeDiscrepancies h items)
        | Totals \<Rightarrow> Inr (analyzeTotals h items)
        | Averages \<Rightarrow> Inr (analyzeAverages h items)
        | Performance \<Rightarrow> Inr (analyzePerformance h items)
        | GLEntries \<Rightarrow> analyzeGLEntries h items
        | GeneralInsight \<Rightarrow> Inr (provideGeneralInsight h items))
   \<and> (js_includes (toLowerCase q) ''trend'' \<and> js_includes (toLowerCase q) ''total''
        \<longrightarrow> classify q = Trends)
   \<and> (js_includes q ''trend'' \<and> js_includes q ''total'' \<longrightarrow> classify q = Trends)
   \<and> (no_keyword q
        \<longrightarrow> classify q = GeneralInsight
            \<and> analyzeQuery h items q = Inr (provideGeneralInsight h items))"
proof (intro conjI impI)
  show "classify q = classify_spec q"
    by (rule classify_refines)
  show "analyzeQuery h items q =
       (case classify q of
          Trends \<Rightarrow> Inr (analyzeTrends h items)
        | MissedBudgets \<Rightarrow> Inr (analyzeMissedBudgets h items)
        | Discrepancies \<Rightarrow> Inr (analyzeDiscrepancies h items)
        | Totals \<Rightarrow> Inr (analyzeTotals h items)
        | Averages \<Rightarrow> Inr (analyzeAverages h items)
        | Performance \<Rightarrow> Inr (analyzePerformance h items)
        | GLEntries \<Rightarrow> analyzeGLEntries h items
        | GeneralInsight \<Rightarrow> Inr (provideGeneralInsight h items))"
    by (rule analyzeQuery_dispatch)
next
  assume "js_includes (toLowerCase q) ''trend'' \<and> js_includes (toLowerCase q) ''total''"
  then show "classify q = Trends"
    by (simp add: classify_def)
next
  assume "js_includes q ''trend'' \<and> js_includes q ''total''"
  then have "js_includes (toLowerCase q) ''trend''"
    using includes_toLowerCase toLowerCase_trend by metis
  then show "classify q = Trends"
    by (simp add: classify_def)
next
  assume "no_keyword q"
  then show c: "classify q = GeneralInsight"
    by (simp add: no_keyword_def keyword_table_def classify_def)
  show "analyzeQuery h items q = Inr (provideGeneralInsight h items)"
    by (simp add: analyzeQuery_dispatch c)
qed

theorem classifier_priority_witness:
  "js_includes (toLowerCase ''Show the TREND of the Total'') ''trend''
   \<and> js_includes (toLowerCase ''Show the TREND of the Total'') ''total''
   \<and> classify ''Show the TREND of the Total'' = Trends
   \<and> js_includes ''trend or total?'' ''trend'' \<and> js_includes ''trend or total?'' ''total''
   \<and> classify ''trend or total?'' = Trends
   \<and> no_keyword ''How are you?''
   \<and> classify ''How are you?'' = GeneralInsight
   \<and> analyzeQuery example_host [] ''How are you?''
       = Inr (provideGeneralInsight example_host [])"
proof -
  have a: "js_includes (toLowerCase ''Show the TREND of the Total'') ''trend''
           \<and> js_includes (toLowerCase ''Show the TREND of the Total'') ''total''"
    by code_simp
  have b: "js_includes ''trend or total?'' ''trend'' \<and> js_includes ''trend or total?'' ''total''"
    by code_simp
  have c: "no_keyword ''How are you?''"
    by code_simp
  from a b c
    classifier_priority [of "''Show the TREND of the Total''" example_host "[]"]
    classifier_priority [of "''trend or total?''" example_host "[]"]
    classifier_priority [of "''How are you?''" example_host "[]"]
  show ?thesis by blast
qed

subsection \<open>Totals\<close>

lemma sum_totals_scenario:
  "sum_totals scenario_records = \<lparr>totalBudget = Fin 200, totalActual = Fin 210\<rparr>"
  by code_simp

lemma totalVariance_scenario: "totalVariance scenario_records = Fin 5"
  by code_simp

lemma signed_five: "plus_sign (Fin 5) @ toFixed1 h (Fin 5) = ''+5.0''"
  by code_simp

lemma totals_label_five: "totals_label (Fin 5) = over_budget"
  by code_simp

text \<open>
  Claim C1, as the specification states it, fails: for the records
  \<^verbatim>\<open>[{Year:2021,Budget:100,Actual:120},{Year:2022,Budget:100,Actual:90}]\<close> the
  narrative of the totals analysis does not carry the label "excellent control", in any
  capitalisation.  The variance is exactly 5, and the label needs \<open>|variance| < 5\<close>.
\<close>

theorem totals_scenario_counterexample:
  "\<not> js_includes (toLowerCase (insight (analyzeTotals example_host scenario_records)))
       ''excellent control''"
  by code_simp

text \<open>
  Claim C1, amended.  For the two records of the scenario the totals analysis reports a
  total budget of 200, a total actual of 210 and an overall variance printed as
  \<open>+5.0%\<close>, and the narrative ends with the "Over Budget" label; this holds whatever the
  locale prints for 200 and 210.
\<close>

theorem totals_scenario:
  "sum_totals scenario_records = \<lparr>totalBudget = Fin 200, totalActual = Fin 210\<rparr>
   \<and> totalVariance scenario_records = Fin 5
   \<and> analyzeTotals h scenario_records =
       \<lparr>insight =
            ''**Total Budget Analysis**'' @ nl @ nl
            @ money_bag @ '' **Total Budgeted**: $'' @ toLocaleString h (Fin 200) @ nl
            @ money_wings @ '' **Total Actual**: $'' @ toLocaleString h (Fin 210) @ nl
            @ bar_chart @ '' **Overall Variance**: +5.0%'' @ nl @ nl
            @ over_budget,
          data = Some (TotalsData \<lparr>totalBudget = Fin 200, totalActual = Fin 210\<rparr> (Fin 5)),
          chartType = None\<rparr>
   \<and> js_includes over_budget ''Over Budget''
   \<and> over_budget \<noteq> excellent_control"
proof (intro conjI)
  show "sum_totals scenario_records = \<lparr>totalBudget = Fin 200, totalActual = Fin 210\<rparr>"
    by (rule sum_totals_scenario)
  show "totalVariance scenario_records = Fin 5"
    by (rule totalVariance_scenario)
  have "plus_sign (Fin 5) @ toFixed1 h (Fin 5) @ ''%'' @ nl @ nl @ totals_label (Fin 5) =
        ''+5.0%'' @ nl @ nl @ over_budget"
    using signed_five [of h] by (simp add: totals_label_five)
  then show "analyzeTotals h scenario_records =
       \<lparr>insight =
            ''**Total Budget Analysis**'' @ nl @ nl
            @ money_bag @ '' **Total Budgeted**: $'' @ toLocaleString h (Fin 200) @ nl
            @ money_wings @ '' **Total Actual**: $'' @ toLocaleString h (Fin 210) @ nl
            @ bar_chart @ '' **Overall Variance**: +5.0%'' @ nl @ nl
            @ over_budget,
          data = Some (TotalsData \<lparr>totalBudget = Fin 200, totalActual = Fin 210\<rparr> (Fin 5)),
          chartType = None\<rparr>"
    by (simp add: analyzeTotals_def sum_totals_scenario totalVariance_scenario)
  show "js_includes over_budget ''Over Budget''"
    by code_simp
  show "over_budget \<noteq> excellent_control"
    by code_simp
qed

subsection \<open>Reading the numeric fields\<close>













subsection \<open>Averages\<close>

text \<open>Where the average budget is not zero, the average variance is the plain percentage.\<close>

lemma averageVariance_finite:
  "avgBudget items = Fin b \<Longrightarrow> avgActual items = Fin a \<Longrightarrow> b \<noteq> 0 \<Longrightarrow>
   averageVariance items = Fin ((a - b) / b * 100)"
  by (simp add: averageVariance_def js_sub_def js_add_def js_neg_def js_div_def js_mul_def)

text \<open>
  Claim C3 does not hold of the code: \<^verbatim>\<open>analyzeAverages\<close> divides by the average
  budget without the test \<^verbatim>\<open>budget > 0\<close> that every other variance in the class
  has.  For the single record \<^verbatim>\<open>{Budget: 0, Actual: 50}\<close> the average budget is 0
  and the average variance is \<open>+Infinity\<close>, where the guarded formula gives 0.
\<close>

theorem averages_zero_budget:
  "avgBudget zero_budget_records = Fin 0
   \<and> avgActual zero_budget_records = Fin 50
   \<and> averageVariance zero_budget_records = PInf
   \<and> variance_pct (avgBudget zero_budget_records) (avgActual zero_budget_records) = Fin 0
   \<and> data (analyzeAverages example_host zero_budget_records)
       = Some (AveragesData (Fin 0) (Fin 50) PInf)
   \<and> js_includes (insight (analyzeAverages example_host zero_budget_records))
        ''**Average Variance**: +Infinity%''"
  by code_simp

subsection \<open>Missed budgets\<close>

text \<open>
  Claim C10.  For the empty record set the missed-budget analysis returns the
  "Excellent" narrative with an empty data list and the bar chart tag, also when it is
  reached through \<^verbatim>\<open>analyzeQuery\<close>.  The percentage \<open>0 / 0 * 100\<close> is \<open>NaN\<close>, and the
  narrative does not print it.
\<close>

theorem empty_missed_budgets:
  "analyzeMissedBudgets h [] =
     \<lparr>insight = missed_header @ no_overruns, data = Some (Items []), chartType = Some Bar\<rparr>
   \<and> analyzeQuery h [] ''missed'' = Inr (analyzeMissedBudgets h [])
   \<and> missedPercentage [] = NaN
   \<and> js_includes no_overruns ''Excellent''"
proof (intro conjI)
  show "analyzeMissedBudgets h [] =
     \<lparr>insight = missed_header @ no_overruns, data = Some (Items []), chartType = Some Bar\<rparr>"
    by (simp add: analyzeMissedBudgets_def missedBudgets_def)
  have "classify ''missed'' = MissedBudgets"
    by code_simp
  then show "analyzeQuery h [] ''missed'' = Inr (analyzeMissedBudgets h [])"
    by (simp add: analyzeQuery_dispatch)
  show "missedPercentage [] = NaN"
    by code_simp
  show "js_includes no_overruns ''Excellent''"
    by code_simp
qed






subsection \<open>Discrepancies\<close>



























subsection \<open>Grouping by year and trends\<close>





































subsection \<open>Ledger entries\<close>

lemma analyzeGLEntries_no_fields:
  "glFields items = [] \<Longrightarrow>
   analyzeGLEntries h items =
     Inr \<lparr>insight = gl_header @ no_gl_fields, data = Some Null, chartType = Some Table\<rparr>"
  by (simp add: analyzeGLEntries_def)

lemma analyzeGLEntries_raises:
  "glFields items \<noteq> [] \<Longrightarrow> analyzeGLEntries h items = Inl (ReferenceError ''glSummary'')"
  by (simp add: analyzeGLEntries_def)

text \<open>
  Claim C8 does not hold of the code.  The ledger fields are detected as the claim
  says, from the field names of the first record, and a record set without such a
  field gets the "No GL Fields Found" report.  For three records with a
  \<^verbatim>\<open>GL_Account\<close> field holding \<^verbatim>\<open>"4000"\<close>, \<^verbatim>\<open>"4100"\<close> and \<^verbatim>\<open>"4000"\<close>
  the analyzer does build a summary with exactly the two keys, each with its own
  count and sums, and a narrative that reports 2 accounts; but the \<^verbatim>\<open>return\<close>
  statement then reads \<^verbatim>\<open>glSummary\<close> outside the block that declares it, and the
  call ends with a \<^verbatim>\<open>ReferenceError\<close> instead of a result.
\<close>

theorem ledger_scenario_raises:
  "glFields ledger_records = [''GL_Account'']
   \<and> keys (glSummary example_host ledger_records) = [''4000'', ''4100'']
   \<and> values_of (glSummary example_host ledger_records) =
       [\<lparr>totalBudget = Fin 150, totalActual = Fin 160, count = 2\<rparr>,
        \<lparr>totalBudget = Fin 200, totalActual = Fin 190, count = 1\<rparr>]
   \<and> js_includes (gl_report example_host ledger_records) ''**Total GL Accounts**: 2''
   \<and> analyzeGLEntries example_host ledger_records = Inl (ReferenceError ''glSummary'')
   \<and> analyzeQuery example_host ledger_records ''Show the GL accounts''
       = Inl (ReferenceError ''glSummary'')
   \<and> analyzeGLEntries example_host scenario_records =
       Inr \<lparr>insight = gl_header @ no_gl_fields, data = Some Null, chartType = Some Table\<rparr>"
  by code_simp

subsection \<open>Repeated runs\<close>

text \<open>No analysis reads the random draw; what the host contributes is the calendar year and the printing of numbers.\<close>

lemma number_toString_host:
  "printNumber ha = printNumber hb \<Longrightarrow> number_toString ha = number_toString hb"
  by (rule ext) (simp add: number_toString_def split: jsnum.split)

lemma toString_host:
  "printNumber ha = printNumber hb \<Longrightarrow> toString ha = toString hb"
  by (rule ext) (simp add: toString_def number_toString_host [of ha hb] split: jsval.split)

lemma toFixed1_host:
  "printNumber ha = printNumber hb \<Longrightarrow> toFixed1 ha = toFixed1 hb"
  by (rule ext)
     (simp add: toFixed1_def Let_def number_toString_host [of ha hb] split: jsnum.split
        cong: if_cong)

lemma category_of_host:
  "printNumber ha = printNumber hb \<Longrightarrow> category_of ha = category_of hb"
  by (rule ext) (simp add: category_of_def toString_host [of ha hb])

lemma year_of_host:
  "printNumber ha = printNumber hb \<Longrightarrow> currentYear ha = currentYear hb \<Longrightarrow>
   year_of ha = year_of hb"
  by (rule ext) (simp add: year_of_def toString_host [of ha hb])

lemma trend_line_host:
  "printNumber ha = printNumber hb \<Longrightarrow> trend_line ha = trend_line hb"
  by (rule ext) (simp add: trend_line_def toFixed1_host [of ha hb])

lemma analyzeTrends_host:
  assumes "currentYear ha = currentYear hb" and "printNumber ha = printNumber hb"
  shows "analyzeTrends ha items = analyzeTrends hb items"
  using assms
  by (simp add: analyzeTrends_def groupByYear_def Let_def trend_line_host [of ha hb]
      year_of_host [of ha hb] cong: if_cong)

lemma analyzeMissedBudgets_host:
  assumes "currentYear ha = currentYear hb" and "printNumber ha = printNumber hb"
  shows "analyzeMissedBudgets ha items = analyzeMissedBudgets hb items"
  using assms
  by (simp add: analyzeMissedBudgets_def groupMissesByYear_def overruns_line_def Let_def
      year_of_host [of ha hb] toFixed1_host [of ha hb] cong: if_cong)

lemma ranked_line_host:
  "printNumber ha = printNumber hb \<Longrightarrow> ranked_line ha = ranked_line hb"
  by (intro ext) (simp add: ranked_line_def category_of_host [of ha hb] toFixed1_host [of ha hb])

lemma analyzeDiscrepancies_host:
  assumes "toLocaleString ha = toLocaleString hb" and "printNumber ha = printNumber hb"
  shows "analyzeDiscrepancies ha items = analyzeDiscrepancies hb items"
  using assms
  by (simp add: analyzeDiscrepancies_def variance_summary_def Let_def
      ranked_line_host [of ha hb] toFixed1_host [of ha hb] cong: if_cong)

lemma analyzeTotals_host:
  assumes "toLocaleString ha = toLocaleString hb" and "printNumber ha = printNumber hb"
  shows "analyzeTotals ha items = analyzeTotals hb items"
  using assms
  by (simp add: analyzeTotals_def Let_def toFixed1_host [of ha hb])

lemma analyzeAverages_host:
  assumes "toLocaleString ha = toLocaleString hb" and "printNumber ha = printNumber hb"
  shows "analyzeAverages ha items = analyzeAverages hb items"
  using assms
  by (simp add: analyzeAverages_def Let_def toFixed1_host [of ha hb])

lemma performer_line_host:
  "printNumber ha = printNumber hb \<Longrightarrow> performer_line ha = performer_line hb"
  by (intro ext)
     (simp add: performer_line_def category_of_host [of ha hb] toFixed1_host [of ha hb])

lemma analyzePerformance_host:
  assumes "printNumber ha = printNumber hb"
  shows "analyzePerformance ha items = analyzePerformance hb items"
  using assms
  by (simp add: analyzePerformance_def scores_def performer_line_host [of ha hb]
      toString_host [of ha hb] cong: if_cong)

lemma analyzeGLEntries_host: "analyzeGLEntries ha items = analyzeGLEntries hb items"
  by (simp add: analyzeGLEntries_def)

lemma help_not_overview: "help_text \<noteq> overview_text items"
proof -
  have "hd help_text = CHR ''I''"
    by (simp add: help_text_def)
  moreover have "hd (overview_text items) = CHR ''*''"
    by (simp add: overview_text_def)
  ultimately show ?thesis
    by auto
qed

text \<open>
  Claim C9, as the specification states it, fails: a record without a year is filed
  under the current calendar year, so for one such record over its budget the
  missed-budget narrative of a run in 2025 differs from that of a run in 2026.
\<close>

theorem calendar_year_matters:
  "analyzeQuery (example_host\<lparr>currentYear := 2025\<rparr>) undated_records ''missed''
   \<noteq> analyzeQuery example_host undated_records ''missed''"
  by code_simp

text \<open>
  Claim C9, amended.  For a question that does not fall through to the general
  insight, the result of \<^verbatim>\<open>analyzeQuery\<close> does not depend on the random draw, and two
  hosts with the same calendar year and the same number formatting return the same
  result (narrative, data and chart tag, or the same error).  For a question that falls
  through to the general insight, the draws 0 and 1/2 give different narratives.
\<close>

theorem repeated_analysis:
  "(classify q \<noteq> GeneralInsight \<longrightarrow>
      analyzeQuery (h\<lparr>random := ra\<rparr>) items q = analyzeQuery (h\<lparr>random := rb\<rparr>) items q)
   \<and> (classify q \<noteq> GeneralInsight \<and> currentYear ha = currentYear hb
       \<and> toLocaleString ha = toLocaleString hb \<and> printNumber ha = printNumber hb \<longrightarrow>
      analyzeQuery ha items q = analyzeQuery hb items q)
   \<and> (classify q = GeneralInsight \<longrightarrow>
      analyzeQuery (h\<lparr>random := 0\<rparr>) items q \<noteq> analyzeQuery (h\<lparr>random := 1 / 2\<rparr>) items q)"
proof (intro conjI impI)
  have same: "analyzeQuery ha items q = analyzeQuery hb items q"
    if k: "classify q \<noteq> GeneralInsight" and y: "currentYear ha = currentYear hb"
      and l: "toLocaleString ha = toLocaleString hb" and p: "printNumber ha = printNumber hb"
    for ha hb
  proof -
    note eqs = analyzeTrends_host [OF y p, of items] analyzeMissedBudgets_host [OF y p, of items]
      analyzeDiscrepancies_host [OF l p, of items] analyzeTotals_host [OF l p, of items]
      analyzeAverages_host [OF l p, of items] analyzePerformance_host [OF p, of items]
      analyzeGLEntries_host [of ha items hb]
    from k show ?thesis
      unfolding analyzeQuery_dispatch
      by (cases "classify q") (simp_all only: eqs AnalysisKind.case, simp_all)
  qed
  {
    assume "classify q \<noteq> GeneralInsight \<and> currentYear ha = currentYear hb
       \<and> toLocaleString ha = toLocaleString hb \<and> printNumber ha = printNumber hb"
    then show "analyzeQuery ha items q = analyzeQuery hb items q"
      by (intro same) simp_all
  }
  {
    assume "classify q \<noteq> GeneralInsight"
    then show "analyzeQuery (h\<lparr>random := ra\<rparr>) items q = analyzeQuery (h\<lparr>random := rb\<rparr>) items q"
      by (intro same) simp_all
  }
  {
    assume "classify q = GeneralInsight"
    then show "analyzeQuery (h\<lparr>random := 0\<rparr>) items q
               \<noteq> analyzeQuery (h\<lparr>random := 1 / 2\<rparr>) items q"
      by (simp add: analyzeQuery_dispatch provideGeneralInsight_def help_not_overview)
  }
qed

theorem repeated_analysis_witness:
  "classify ''How many years did we miss the budget plan?'' \<noteq> GeneralInsight
   \<and> analyzeQuery (example_host\<lparr>random := 1 / 4\<rparr>) four_year_records
        ''How many years did we miss the budget plan?''
     = analyzeQuery (example_host\<lparr>random := 3 / 4\<rparr>) four_year_records
        ''How many years did we miss the budget plan?''
   \<and> classify ''Hello'' = GeneralInsight
   \<and> analyzeQuery (example_host\<lparr>random := 0\<rparr>) four_year_records ''Hello''
     \<noteq> analyzeQuery (example_host\<lparr>random := 1 / 2\<rparr>) four_year_records ''Hello''"
proof -
  have a: "classify ''How many years did we miss the budget plan?'' \<noteq> GeneralInsight"
    by code_simp
  have b: "classify ''Hello'' = GeneralInsight"
    by code_simp
  from a b
    repeated_analysis [where q = "''How many years did we miss the budget plan?''"
      and h = example_host and ra = "1 / 4" and rb = "3 / 4" and items = four_year_records
      and ha = example_host and hb = example_host]
    repeated_analysis [where q = "''Hello''" and h = example_host and ra = 0 and rb = 0
      and items = four_year_records and ha = example_host and hb = example_host]
  show ?thesis by blast
qed

end
